theory Spec2Isabelle
  imports Complex_Main "HOL-Library.Sublist"
begin

section \<open>The notification core of node-binance-trader\<close>

text \<open>
  This theory embeds \<^verbatim>\<open>src/trader/notifiers/index.ts\<close>: the module-level channel
  list with \<^verbatim>\<open>initializeNotifiers\<close>, the fan-out \<^verbatim>\<open>notifyAll\<close> with its severity gate,
  the renderer \<^verbatim>\<open>getNotifierMessage\<close> and the helper \<^verbatim>\<open>format\<close>.

  Conventions of the embedding.
  \<^item> A JavaScript string is a \<open>string\<close>; only ASCII text is considered (case mapping and
    white space are those of ASCII).
  \<^item> A \<^verbatim>\<open>BigNumber\<close> is an exact rational. A JavaScript \<^verbatim>\<open>number\<close> is \<^verbatim>\<open>NaN\<close> or a double,
    held as the rational it denotes; every arithmetic operation on numbers rounds its
    exact result to the nearest double, a tie going to the even significand. Overflow to
    an infinity, negative zero and the exponent notation of \<^verbatim>\<open>toFixed\<close> from \<open>10\<^sup>2\<^sup>1\<close> on
    are outside the model.
  \<^item> A \<^verbatim>\<open>Date\<close> is its time value, an integer number of milliseconds since the epoch;
    invalid dates are outside the model.
  \<^item> A channel's \<^verbatim>\<open>notify\<close> returns a promise, as its type \<^verbatim>\<open>Promise<void>\<close> says; the promise
    is described by how it settles and by the instant at which the aggregate observes the
    settlement. Calls that throw before returning a promise are outside the model.
  \<^item> \<^verbatim>\<open>env()\<close> is a record that stays the same during one call of a function of the
    module.
\<close>

subsection \<open>JavaScript library functions used by the module\<close>

text \<open>\<^verbatim>\<open>Array.prototype.indexOf\<close>: the first index holding the element, or \<open>-1\<close>.\<close>

fun indexOf :: "'a list \<Rightarrow> 'a \<Rightarrow> int" where
  "indexOf [] x = - 1"
| "indexOf (y # ys) x =
     (if y = x then 0
      else (let i = indexOf ys x in if i < 0 then - 1 else i + 1))"

text \<open>\<^verbatim>\<open>String.prototype.toUpperCase\<close> on ASCII text.\<close>

definition upperChar :: "char \<Rightarrow> char" where
  "upperChar c =
     (let n = (of_char c :: nat)
      in if 97 \<le> n \<and> n \<le> 122 then char_of (n - 32) else c)"

definition toUpperCase :: "string \<Rightarrow> string" where
  "toUpperCase s = map upperChar s"

text \<open>\<^verbatim>\<open>String.prototype.trim\<close>: ASCII white space is tab, line feed, vertical tab, form
  feed, carriage return and space.\<close>

definition isSpace :: "char \<Rightarrow> bool" where
  "isSpace c = (let n = (of_char c :: nat) in (9 \<le> n \<and> n \<le> 13) \<or> n = 32)"

definition trim :: "string \<Rightarrow> string" where
  "trim s = rev (dropWhile isSpace (rev (dropWhile isSpace s)))"

text \<open>\<^verbatim>\<open>Array.prototype.join\<close>.\<close>

fun join :: "string \<Rightarrow> string list \<Rightarrow> string" where
  "join sep [] = []"
| "join sep [x] = x"
| "join sep (x # y # ys) = x @ sep @ join sep (y # ys)"

text \<open>Decimal digits of a non-negative integer.\<close>

definition digitChar :: "int \<Rightarrow> char" where
  "digitChar d = char_of (48 + d)"

function digits :: "int \<Rightarrow> string" where
  "digits n = (if n < 10 then [digitChar n] else digits (n div 10) @ [digitChar (n mod 10)])"
  by pat_completeness auto
termination
  by (relation "measure nat") auto

text \<open>A number written with at least \<open>w\<close> digits, zeros in front.\<close>

definition padZeros :: "nat \<Rightarrow> int \<Rightarrow> string" where
  "padZeros w n = (let d = digits n in replicate (w - length d) (CHR ''0'') @ d)"

text \<open>
  \<^verbatim>\<open>toFixed(p)\<close> of a finite value, for \<^verbatim>\<open>Number\<close> and for \<^verbatim>\<open>BigNumber\<close> in its default
  rounding mode: the magnitude is rounded to \<open>p\<close> decimals, a tie going away from zero,
  and a negative value keeps its sign even when it rounds to zero.
\<close>

definition toFixed :: "rat \<Rightarrow> nat \<Rightarrow> string" where
  "toFixed x p =
     (let n = \<lfloor>\<bar>x\<bar> * 10 ^ p + 1 / 2\<rfloor>;
          d = padZeros (p + 1) n;
          k = length d - p;
          body = (if p = 0 then d else take k d @ ''.'' @ drop k d)
      in (if x < 0 then ''-'' else []) @ body)"

text \<open>
  \<^verbatim>\<open>s.replace(/\.?0+$/, "")\<close>: the leftmost match that reaches the end of the string is
  removed. It is the final run of zeros, together with a point standing right before it.
\<close>

definition stripZeros :: "string \<Rightarrow> string" where
  "stripZeros s =
     (let r = dropWhile (\<lambda>c. c = CHR ''0'') (rev s)
      in if length r = length s then s
         else rev (case r of [] \<Rightarrow> [] | c # r' \<Rightarrow> if c = CHR ''.'' then r' else r))"

text \<open>
  \<^verbatim>\<open>Date.prototype.toISOString\<close> of a valid date: the proleptic Gregorian calendar in UTC,
  \<^verbatim>\<open>YYYY-MM-DDTHH:mm:ss.sssZ\<close>, the year with a sign and six digits outside 0 to 9999.
  \<open>civil\<close> turns a day number (days since the epoch) into year, month and day.
\<close>

definition civil :: "int \<Rightarrow> int \<times> int \<times> int" where
  "civil days =
     (let z = days + 719468;
          era = z div 146097;
          doe = z - era * 146097;
          yoe = (doe - doe div 1460 + doe div 36524 - doe div 146096) div 365;
          doy = doe - (365 * yoe + yoe div 4 - yoe div 100);
          mp = (5 * doy + 2) div 153;
          d = doy - (153 * mp + 2) div 5 + 1;
          m = (if mp < 10 then mp + 3 else mp - 9);
          y = yoe + era * 400 + (if m \<le> 2 then 1 else 0)
      in (y, m, d))"

definition isoYear :: "int \<Rightarrow> string" where
  "isoYear y =
     (if 0 \<le> y \<and> y \<le> 9999 then padZeros 4 y
      else (if y < 0 then ''-'' else ''+'') @ padZeros 6 \<bar>y\<bar>)"

definition toISOString :: "int \<Rightarrow> string" where
  "toISOString t =
     (let days = t div 86400000;
          ms = t mod 86400000;
          (y, m, d) = civil days
      in isoYear y @ ''-'' @ padZeros 2 m @ ''-'' @ padZeros 2 d @ ''T''
         @ padZeros 2 (ms div 3600000) @ '':'' @ padZeros 2 (ms div 60000 mod 60) @ '':''
         @ padZeros 2 (ms div 1000 mod 60) @ ''.'' @ padZeros 3 (ms mod 1000) @ ''Z'')"

subsection \<open>Double precision arithmetic\<close>

text \<open>The number of binary digits of a positive integer, and the powers of two.\<close>

function bitLength :: "int \<Rightarrow> int" where
  "bitLength n = (if n \<le> 0 then 0 else 1 + bitLength (n div 2))"
  by pat_completeness auto
termination
  by (relation "measure nat") auto

definition pow2 :: "int \<Rightarrow> rat" where
  "pow2 k = (if 0 \<le> k then 2 ^ nat k else 1 / 2 ^ nat (- k))"

text \<open>Rounding to the nearest integer, a tie going to the even one.\<close>

definition roundHalfEven :: "rat \<Rightarrow> int" where
  "roundHalfEven x =
     (let f = \<lfloor>x\<rfloor>;
          r = x - of_int f
      in if r < 1 / 2 then f
         else if 1 / 2 < r then f + 1
         else if even f then f else f + 1)"

text \<open>
  The IEEE 754 binary64 value nearest to a rational. For \<open>x \<noteq> 0\<close> the exponent \<open>e\<close> is
  the one with \<open>2\<^sup>e \<le> \<bar>x\<bar> < 2\<^sup>e\<^sup>+\<^sup>1\<close>; it lies at most one below the difference of the bit
  lengths of numerator and denominator. A double has 53 significant bits, so neighbouring
  doubles at this exponent are \<open>2\<^sup>e\<^sup>-\<^sup>5\<^sup>2\<close> apart (\<open>2\<^sup>-\<^sup>1\<^sup>0\<^sup>7\<^sup>4\<close> for subnormal numbers), and
  \<open>\<bar>x\<bar>\<close> is rounded to a multiple of that unit.
\<close>

definition roundDouble :: "rat \<Rightarrow> rat" where
  "roundDouble x =
     (if x = 0 then 0
      else
        (let (p, q) = quotient_of \<bar>x\<bar>;
             d = bitLength p - bitLength q;
             e = (if pow2 d \<le> \<bar>x\<bar> then d else d - 1);
             u = pow2 (max e (- 1022) - 52);
             n = roundHalfEven (\<bar>x\<bar> / u)
         in (if x < 0 then - 1 else 1) * of_int n * u))"

subsection \<open>Channels, configuration and module state\<close>

type_synonym reason = string

text \<open>
  How the promise returned by a channel's \<^verbatim>\<open>notify\<close> settles. The instant orders the
  settlements as \<^verbatim>\<open>Promise.all\<close> observes them; at equal instants the reactions run in the
  order of subscription, which is the order of the list.
\<close>

datatype settlement = Never | FulfilsAt nat | RejectsAt nat reason

text \<open>The state of the promise returned by \<^verbatim>\<open>notifyAll\<close> once nothing more can happen.\<close>

datatype outcome = Pending | Resolved | Rejected reason

record notifierMessage =
  messageType :: string
  subject :: string
  content :: string
  contentHtml :: string

text \<open>A \<^verbatim>\<open>Notifier\<close> object: \<open>ident\<close> stands for the identity of the object.\<close>

record notifier =
  ident :: string
  notify :: "notifierMessage \<Rightarrow> settlement"

text \<open>The fields of \<^verbatim>\<open>env()\<close> that the module reads.\<close>

record env =
  IS_NOTIFIER_GMAIL_ENABLED :: bool
  IS_NOTIFIER_TELEGRAM_ENABLED :: bool
  NOTIFIER_LEVEL :: string
  IS_NOTIFIER_SHORT :: bool
  MAX_WEB_PRECISION :: nat

text \<open>A JavaScript \<^verbatim>\<open>number\<close>, and a numeric field: a \<^verbatim>\<open>BigNumber\<close> object or a \<^verbatim>\<open>number\<close>.\<close>

datatype number = Finite rat | NaN

datatype numeric = Big rat | Num number

text \<open>
  What the module imports from files that are not among the sources: the members of the
  string enum \<^verbatim>\<open>MessageType\<close> in declaration order (key, value), the values of
  \<^verbatim>\<open>SourceType.SIGNAL\<close> and \<^verbatim>\<open>PositionType.SHORT\<close>, the function \<^verbatim>\<open>calculatePnL\<close> (it
  returns a \<^verbatim>\<open>BigNumber\<close>) and the objects built by the factories \<^verbatim>\<open>gmail()\<close> and
  \<^verbatim>\<open>telegram()\<close>. They are parameters of the model.
\<close>

record modules =
  MessageType :: "(string \<times> string) list"
  SourceType_SIGNAL :: string
  PositionType_SHORT :: string
  calculatePnL :: "numeric \<Rightarrow> numeric \<Rightarrow> rat"
  gmail :: notifier
  telegram :: notifier

text \<open>
  The module-level array \<^verbatim>\<open>notifiers\<close>, together with the two effects of the module on its
  surroundings: the values passed to \<^verbatim>\<open>logger.error\<close> and the calls of \<^verbatim>\<open>notify\<close>, both
  in the order in which they happen.
\<close>

record state =
  notifiers :: "notifier list"
  logged :: "reason list"
  delivered :: "(notifier \<times> notifierMessage) list"

subsection \<open>The registry and the fan-out\<close>

text \<open>
  \<^verbatim>\<open>initializeNotifiers\<close> pushes onto the module-level array; the object it returns only
  wraps \<^verbatim>\<open>notifyAll\<close>.
\<close>

definition initializeNotifiers :: "modules \<Rightarrow> env \<Rightarrow> state \<Rightarrow> state" where
  "initializeNotifiers md e st =
     (let st1 = (if IS_NOTIFIER_GMAIL_ENABLED e
                 then st\<lparr>notifiers := notifiers st @ [gmail md]\<rparr> else st);
          st2 = (if IS_NOTIFIER_TELEGRAM_ENABLED e
                 then st1\<lparr>notifiers := notifiers st1 @ [telegram md]\<rparr> else st1)
      in st2)"

text \<open>The earliest rejection among the promises, the first of the list at equal instants.\<close>

fun firstRejection :: "settlement list \<Rightarrow> (nat \<times> reason) option" where
  "firstRejection [] = None"
| "firstRejection (RejectsAt t r # ps) =
     (case firstRejection ps of
        None \<Rightarrow> Some (t, r)
      | Some (t', r') \<Rightarrow> if t \<le> t' then Some (t, r) else Some (t', r'))"
| "firstRejection (p # ps) = firstRejection ps"

text \<open>
  \<^verbatim>\<open>Promise.all\<close>: rejected with the reason of the first rejection observed; fulfilled when
  every promise is fulfilled; pending otherwise.
\<close>

definition Promise_all :: "settlement list \<Rightarrow> outcome" where
  "Promise_all ps =
     (case firstRejection ps of
        Some (t, r) \<Rightarrow> Rejected r
      | None \<Rightarrow> if Never \<in> set ps then Pending else Resolved)"

definition notifyAll :: "modules \<Rightarrow> env \<Rightarrow> state \<Rightarrow> notifierMessage \<Rightarrow> outcome \<times> state" where
  "notifyAll md e st m =
     (let valLevels = map snd (MessageType md);
          keyLevels = map fst (MessageType md)
      in if indexOf valLevels (messageType m)
              < indexOf keyLevels (toUpperCase (NOTIFIER_LEVEL e))
         then (Resolved, st)
         else
           (let st' = st\<lparr>delivered := delivered st @ map (\<lambda>n. (n, m)) (notifiers st)\<rparr>
            in case Promise_all (map (\<lambda>n. notify n m) (notifiers st)) of
                 Resolved \<Rightarrow> (Resolved, st')
               | Rejected r \<Rightarrow> (Rejected r, st'\<lparr>logged := logged st' @ [r]\<rparr>)
               | Pending \<Rightarrow> (Pending, st')))"

subsection \<open>The renderer\<close>

text \<open>
  Modelled from the spec: the fields of \<^verbatim>\<open>Signal\<close> and \<^verbatim>\<open>TradeOpen\<close> (their declarations
  in \<^verbatim>\<open>types/bva\<close> are not among the sources). Symbol, position type, entry type,
  strategy name and score are strings; prices, quantity, cost and borrow are numeric and
  may be absent; wallet and trading type are enum strings and may be absent; the time
  stamps are dates and may be absent.
\<close>

record Signal =
  entryType :: string
  symbol :: string
  positionType :: string
  strategyName :: string
  price :: "numeric option"
  score :: string
  timestamp :: "int option"

record TradeOpen =
  symbol :: string
  positionType :: string
  strategyName :: string
  quantity :: "numeric option"
  cost :: "numeric option"
  borrow :: "numeric option"
  wallet :: "string option"
  tradingType :: "string option"
  priceBuy :: "numeric option"
  priceSell :: "numeric option"
  timeBuy :: "int option"
  timeSell :: "int option"

text \<open>The argument type of \<^verbatim>\<open>format\<close>: \<^verbatim>\<open>BigNumber | number | Date | string | undefined\<close>.\<close>

datatype formattable =
  Undefined | BigNumberV rat | NumberV number | DateV int | StringV string

fun ofNumeric :: "numeric option \<Rightarrow> formattable" where
  "ofNumeric None = Undefined"
| "ofNumeric (Some (Big x)) = BigNumberV x"
| "ofNumeric (Some (Num x)) = NumberV x"

fun ofDate :: "int option \<Rightarrow> formattable" where
  "ofDate None = Undefined"
| "ofDate (Some t) = DateV t"

fun ofString :: "string option \<Rightarrow> formattable" where
  "ofString None = Undefined"
| "ofString (Some s) = StringV s"

text \<open>Truthiness: an object is truthy; a number is truthy unless it is zero or \<^verbatim>\<open>NaN\<close>; a
  string is truthy unless it is empty; \<^verbatim>\<open>undefined\<close> is falsy.\<close>

fun truthyNumeric :: "numeric option \<Rightarrow> bool" where
  "truthyNumeric None = False"
| "truthyNumeric (Some (Big x)) = True"
| "truthyNumeric (Some (Num (Finite x))) = (x \<noteq> 0)"
| "truthyNumeric (Some (Num NaN)) = False"

fun truthyString :: "string option \<Rightarrow> bool" where
  "truthyString None = False"
| "truthyString (Some s) = (s \<noteq> [])"

text \<open>
  The conversion to \<^verbatim>\<open>number\<close> that the operators \<^verbatim>\<open>*\<close> and \<^verbatim>\<open>-\<close> apply to their operands
  (a \<^verbatim>\<open>BigNumber\<close> converts through its decimal string, which is read as the nearest
  double), and the two operators on doubles.
\<close>

fun toNumber :: "numeric option \<Rightarrow> number" where
  "toNumber None = NaN"
| "toNumber (Some (Big x)) = Finite (roundDouble x)"
| "toNumber (Some (Num x)) = x"

fun times_number :: "number \<Rightarrow> number \<Rightarrow> number" where
  "times_number (Finite x) (Finite y) = Finite (roundDouble (x * y))"
| "times_number _ _ = NaN"

fun minus_number :: "number \<Rightarrow> number \<Rightarrow> number" where
  "minus_number (Finite x) (Finite y) = Finite (roundDouble (x - y))"
| "minus_number _ _ = NaN"

text \<open>\<^verbatim>\<open>format(value, precision)\<close>; a caller that omits the precision passes
  \<^verbatim>\<open>env().MAX_WEB_PRECISION\<close>.\<close>

fun format :: "formattable \<Rightarrow> nat \<Rightarrow> string" where
  "format Undefined precision = []"
| "format (BigNumberV x) precision = stripZeros (toFixed x precision)"
| "format (NumberV (Finite x)) precision = stripZeros (toFixed x precision)"
| "format (NumberV NaN) precision = stripZeros ''NaN''"
| "format (DateV t) precision = toISOString t"
| "format (StringV s) precision = s"

text \<open>\<^verbatim>\<open>messageType == MessageType.K\<close> for a member name \<open>K\<close>.\<close>

definition isMember :: "modules \<Rightarrow> string \<Rightarrow> string \<Rightarrow> bool" where
  "isMember md k mt = (map_of (MessageType md) k = Some mt)"

text \<open>The constants \<^verbatim>\<open>type\<close> and \<^verbatim>\<open>action\<close> of \<^verbatim>\<open>getNotifierMessage\<close>.\<close>

definition typeOf :: "Signal option \<Rightarrow> TradeOpen option \<Rightarrow> string" where
  "typeOf signal tradeOpen =
     (case tradeOpen of
        Some t \<Rightarrow> ''trade''
      | None \<Rightarrow> (case signal of Some s \<Rightarrow> ''signal'' | None \<Rightarrow> ''Notification''))"

definition action :: "Signal option \<Rightarrow> TradeOpen option \<Rightarrow> string" where
  "action signal tradeOpen =
     (let type = typeOf signal tradeOpen
      in case signal of
           Some s \<Rightarrow>
             Signal.entryType s @ '' '' @ Signal.symbol s @ '' '' @ Signal.positionType s
               @ '' '' @ type @ ''.''
         | None \<Rightarrow>
             (case tradeOpen of
                Some t \<Rightarrow>
                  TradeOpen.symbol t @ '' '' @ TradeOpen.positionType t @ '' '' @ type @ ''.''
              | None \<Rightarrow> type @ ''.''))"

text \<open>The constants \<^verbatim>\<open>base\<close> and \<^verbatim>\<open>baseHtml\<close>.\<close>

definition base :: "string \<Rightarrow> Signal option \<Rightarrow> TradeOpen option \<Rightarrow> string" where
  "base mt signal tradeOpen = trim (mt @ '' '' @ action signal tradeOpen)"

definition baseHtml :: "modules \<Rightarrow> string \<Rightarrow> Signal option \<Rightarrow> TradeOpen option \<Rightarrow> string" where
  "baseHtml md mt signal tradeOpen =
     (let colour = (if isMember md ''SUCCESS'' mt then ''#008000'' else ''#ff0000'')
      in if isMember md ''INFO'' mt then ''<b>'' @ action signal tradeOpen @ ''</b>''
         else ''<font color='' @ colour @ ''><b>'' @ mt @ ''</b></font> ''
                @ action signal tradeOpen @ '' '')"

text \<open>
  The duration fragment of the short body, pushed when both time stamps are present. The
  time values are integers; their difference, its negation and the divisions by 1000 and
  by 60 are operations on doubles.
\<close>

definition duration :: "modules \<Rightarrow> TradeOpen \<Rightarrow> int \<Rightarrow> int \<Rightarrow> string" where
  "duration md t tb ts =
     (let dur0 = roundDouble (of_int ts - of_int tb);
          dur1 = (if TradeOpen.positionType t = PositionType_SHORT md
                  then roundDouble (0 - dur0) else dur0);
          dur = roundDouble (dur1 / 1000)
      in if dur \<le> 60 then format (NumberV (Finite dur)) 1 @ '' sec''
         else
           (let dur = roundDouble (dur / 60)
            in if dur \<le> 60 then format (NumberV (Finite dur)) 1 @ '' min''
               else
                 (let dur = roundDouble (dur / 60)
                  in format (NumberV (Finite dur)) 1 @ '' hr'')))"

text \<open>
  The short branch up to and including the push of the empty string: the headline held by
  \<^verbatim>\<open>contentRaw\<close> and the array \<^verbatim>\<open>content\<close>.
\<close>

definition shortContent ::
  "modules \<Rightarrow> env \<Rightarrow> string \<Rightarrow> string option \<Rightarrow> TradeOpen option \<Rightarrow> string option
     \<Rightarrow> string \<times> string list" where
  "shortContent md e mt source tradeOpen reason =
     (let content1 =
            (case reason of
               Some r \<Rightarrow> if r \<noteq> [] then [if last r = CHR ''.'' then butlast r else r] else []
             | None \<Rightarrow> []);
          (contentRaw2, content2) =
            (case tradeOpen of
               None \<Rightarrow> (mt, content1)
             | Some t \<Rightarrow>
                 (let (cr, c1) =
                        (case (priceBuy t, priceSell t) of
                           (Some b, Some s) \<Rightarrow>
                             if isMember md ''SUCCESS'' mt \<and> truthyNumeric (Some b)
                                  \<and> truthyNumeric (Some s)
                             then (let percent = calculatePnL md b s
                                   in (if percent < 0 then ''LOSS!'' else ''PROFIT!'',
                                       content1 @ [format (BigNumberV percent) 3 @ ''%'']))
                             else (mt, content1)
                         | _ \<Rightarrow> (mt, content1));
                      c2 = (if truthyNumeric (cost t)
                            then c1 @ [format (ofNumeric (cost t)) (MAX_WEB_PRECISION e)]
                            else c1);
                      c3 = (case (timeBuy t, timeSell t) of
                              (Some tb, Some ts) \<Rightarrow>
                                if isMember md ''SUCCESS'' mt then c2 @ [duration md t tb ts]
                                else c2
                            | _ \<Rightarrow> c2)
                  in (cr, c3)));
          content3 =
            (case source of
               Some src \<Rightarrow>
                 if src \<noteq> [] \<and> src \<noteq> SourceType_SIGNAL md then content2 @ [src]
                 else content2
             | None \<Rightarrow> content2);
          content4 = (if content3 \<noteq> [] then content3 @ [[]] else content3)
      in (contentRaw2, content4))"

text \<open>
  The array \<^verbatim>\<open>content\<close> of the verbose branch. The statement of the score line is
  \<^verbatim>\<open>content.push("score: ") + signal.score === "NA" ? "N/A" : signal.score\<close>, which
  JavaScript reads as
  \<^verbatim>\<open>((content.push("score: ") + signal.score) === "NA") ? "N/A" : signal.score\<close>: the only
  effect is the push of \<^verbatim>\<open>"score: "\<close>, and the value of the conditional is dropped.
\<close>

definition verboseContent ::
  "env \<Rightarrow> string option \<Rightarrow> Signal option \<Rightarrow> TradeOpen option \<Rightarrow> string option
     \<Rightarrow> string list" where
  "verboseContent e source signal tradeOpen reason =
     (let p = MAX_WEB_PRECISION e;
          c0 = [[]];
          c1 = (case source of
                  Some src \<Rightarrow> if src \<noteq> [] then c0 @ [''source: '' @ src] else c0
                | None \<Rightarrow> c0);
          c2 = (case signal of
                  Some s \<Rightarrow>
                    c1 @ [''strategy: '' @ Signal.strategyName s,
                          ''signal price: '' @ format (ofNumeric (price s)) p,
                          ''score: '',
                          ''signal received: '' @ format (ofDate (timestamp s)) p]
                | None \<Rightarrow>
                    (case tradeOpen of
                       Some t \<Rightarrow> c1 @ [''strategy: '' @ TradeOpen.strategyName t]
                     | None \<Rightarrow> c1));
          c3 = (case tradeOpen of
                  Some t \<Rightarrow>
                    c2 @ [''quantity: '' @ format (ofNumeric (quantity t)) p,
                          ''cost: '' @ format (ofNumeric (cost t)) p,
                          ''borrow: '' @ format (ofNumeric (borrow t)) p,
                          ''wallet: '' @ format (ofString (wallet t)) p,
                          ''type: '' @ format (ofString (tradingType t)) p,
                          ''trade buy price: '' @ format (ofNumeric (priceBuy t)) p,
                          ''buy executed: '' @ format (ofDate (timeBuy t)) p,
                          ''trade sell price: '' @ format (ofNumeric (priceSell t)) p,
                          ''sell executed: '' @ format (ofDate (timeSell t)) p,
                          ''LUCRO: '' @ format (NumberV (minus_number
                             (times_number (toNumber (quantity t)) (toNumber (priceSell t)))
                             (times_number (toNumber (quantity t)) (toNumber (priceBuy t))))) p]
                | None \<Rightarrow> c2);
          c4 = (case reason of
                  Some r \<Rightarrow> if r \<noteq> [] then c3 @ [[], r] else c3
                | None \<Rightarrow> c3)
      in c4)"

definition getNotifierMessage ::
  "modules \<Rightarrow> env \<Rightarrow> string \<Rightarrow> string option \<Rightarrow> Signal option \<Rightarrow> TradeOpen option
     \<Rightarrow> string option \<Rightarrow> notifierMessage" where
  "getNotifierMessage md e mt source signal tradeOpen reason =
     (if IS_NOTIFIER_SHORT e then
        (let (contentRaw, content) = shortContent md e mt source tradeOpen reason;
             contentRaw1 = trim (contentRaw @ '' '' @ join ''. '' content
                                   @ action signal tradeOpen);
             contentRaw2 =
               (case tradeOpen of
                  Some t \<Rightarrow> contentRaw1 @ '' '' @ TradeOpen.strategyName t @ ''.''
                | None \<Rightarrow>
                    (case signal of
                       Some s \<Rightarrow> contentRaw1 @ '' '' @ Signal.strategyName s @ ''.''
                     | None \<Rightarrow> contentRaw1))
         in \<lparr>messageType = mt, subject = base mt signal tradeOpen, content = contentRaw2,
             contentHtml = baseHtml md mt signal tradeOpen @ join ''<br/>'' content\<rparr>)
      else
        (let content = verboseContent e source signal tradeOpen reason
         in \<lparr>messageType = mt, subject = base mt signal tradeOpen,
             content = base mt signal tradeOpen @ '' '' @ join [CHR 0x0A] content,
             contentHtml = baseHtml md mt signal tradeOpen @ join ''<br/>'' content\<rparr>))"

subsection \<open>An instance for evaluation\<close>

text \<open>
  The severity names are those of the specification's example; the member values, the
  two enum values, the profit formula and the channels are chosen for the examples.
  \<open>spy\<close> builds a channel whose promise settles in a fixed way.
\<close>

definition spy :: "string \<Rightarrow> settlement \<Rightarrow> notifier" where
  "spy i s = \<lparr>ident = i, notify = (\<lambda>m. s)\<rparr>"

fun valueOfNumeric :: "numeric \<Rightarrow> rat" where
  "valueOfNumeric (Big x) = x"
| "valueOfNumeric (Num (Finite x)) = x"
| "valueOfNumeric (Num NaN) = 0"

definition exampleModules :: modules where
  "exampleModules =
     \<lparr>MessageType = [(''DEBUG'', ''Debug''), (''INFO'', ''Info''), (''SUCCESS'', ''Success''),
                      (''WARN'', ''Warning''), (''ERROR'', ''Error'')],
      SourceType_SIGNAL = ''Signal'',
      PositionType_SHORT = ''short'',
      calculatePnL = (\<lambda>b s. (valueOfNumeric s - valueOfNumeric b) / valueOfNumeric b * 100),
      gmail = spy ''gmail'' (FulfilsAt 1),
      telegram = spy ''telegram'' (FulfilsAt 2)\<rparr>"

definition exampleEnv :: "string \<Rightarrow> bool \<Rightarrow> env" where
  "exampleEnv level short =
     \<lparr>IS_NOTIFIER_GMAIL_ENABLED = True, IS_NOTIFIER_TELEGRAM_ENABLED = True,
      NOTIFIER_LEVEL = level, IS_NOTIFIER_SHORT = short, MAX_WEB_PRECISION = 8\<rparr>"

definition emptyState :: state where
  "emptyState = \<lparr>notifiers = [], logged = [], delivered = []\<rparr>"

definition exampleMessage :: "string \<Rightarrow> notifierMessage" where
  "exampleMessage mt =
     \<lparr>messageType = mt, subject = mt @ '' Notification.'', content = mt @ '' Notification.'',
      contentHtml = ''<b>Notification.</b>''\<rparr>"

definition exampleSignal :: Signal where
  "exampleSignal =
     \<lparr>entryType = ''enter'', symbol = ''BTCUSDT'', positionType = ''long'',
      strategyName = ''Alpha'', price = Some (Big 27000), score = ''NA'',
      timestamp = Some 1700000000123\<rparr>"

definition exampleTrade :: "string \<Rightarrow> int \<Rightarrow> TradeOpen" where
  "exampleTrade pos seconds =
     \<lparr>symbol = ''ETHUSDT'', positionType = pos, strategyName = ''Beta'',
      quantity = Some (Big 2), cost = Some (Big 200), borrow = None, wallet = Some ''margin'',
      tradingType = Some ''real'', priceBuy = Some (Big 100), priceSell = Some (Big 110),
      timeBuy = Some 1700000000000, timeSell = Some (1700000000000 + seconds * 1000)\<rparr>"

text \<open>The module state after one start-up with both channels enabled, and a state whose
  first channel fails while the second one succeeds.\<close>

definition startedState :: "string \<Rightarrow> state" where
  "startedState level = initializeNotifiers exampleModules (exampleEnv level True) emptyState"

definition failingState :: state where
  "failingState =
     \<lparr>notifiers = [spy ''mail'' (RejectsAt 5 ''E''), spy ''chat'' (FulfilsAt 1)],
      logged = [], delivered = []\<rparr>"

section \<open>Properties of the fan-out\<close>

subsection \<open>Positions in the enumeration\<close>

lemma indexOf_lower: "- 1 \<le> indexOf xs x"
  by (induction xs) (auto simp: Let_def)

lemma indexOf_absent: "x \<notin> set xs \<Longrightarrow> indexOf xs x = - 1"
  by (induction xs) (auto simp: Let_def)

lemma indexOf_nth_le: "i < length xs \<Longrightarrow> indexOf xs (xs ! i) \<le> int i"
proof (induction xs arbitrary: i)
  case Nil
  then show ?case by simp
next
  case (Cons y ys)
  show ?case
  proof (cases i)
    case 0
    then show ?thesis by simp
  next
    case (Suc k)
    with Cons.prems have k: "k < length ys" by simp
    from Cons.IH [OF k] have "indexOf ys (ys ! k) \<le> int k" .
    with Suc show ?thesis by (simp add: Let_def)
  qed
qed

lemma indexOf_nth_distinct:
  "distinct xs \<Longrightarrow> i < length xs \<Longrightarrow> indexOf xs (xs ! i) = int i"
proof (induction xs arbitrary: i)
  case Nil
  then show ?case by simp
next
  case (Cons y ys)
  show ?case
  proof (cases i)
    case 0
    then show ?thesis by simp
  next
    case (Suc k)
    with Cons.prems have k: "k < length ys" and d: "distinct ys" and ny: "y \<notin> set ys"
      by simp_all
    from k ny have "ys ! k \<noteq> y" by (metis nth_mem)
    moreover from Cons.IH [OF d k] have "indexOf ys (ys ! k) = int k" .
    ultimately show ?thesis using Suc by (simp add: Let_def)
  qed
qed

subsection \<open>The two sides of the gate\<close>

lemma notifyAll_blocked:
  "indexOf (map snd (MessageType md)) (messageType m)
     < indexOf (map fst (MessageType md)) (toUpperCase (NOTIFIER_LEVEL e))
   \<Longrightarrow> notifyAll md e st m = (Resolved, st)"
  by (simp add: notifyAll_def)

lemma notifyAll_passed_delivered:
  "\<not> indexOf (map snd (MessageType md)) (messageType m)
     < indexOf (map fst (MessageType md)) (toUpperCase (NOTIFIER_LEVEL e))
   \<Longrightarrow> delivered (snd (notifyAll md e st m))
       = delivered st @ map (\<lambda>n. (n, m)) (notifiers st)"
  by (simp add: notifyAll_def Let_def split: outcome.splits)

lemma startedState_eq:
  "startedState level
     = \<lparr>notifiers = [spy ''gmail'' (FulfilsAt 1), spy ''telegram'' (FulfilsAt 2)],
        logged = [], delivered = []\<rparr>"
  by (simp add: startedState_def initializeNotifiers_def exampleModules_def exampleEnv_def
      emptyState_def)

lemma exampleKeys:
  "map fst (MessageType exampleModules) = [''DEBUG'', ''INFO'', ''SUCCESS'', ''WARN'', ''ERROR'']"
  by (simp add: exampleModules_def)

lemma exampleVals:
  "map snd (MessageType exampleModules) = [''Debug'', ''Info'', ''Success'', ''Warning'', ''Error'']"
  by (simp add: exampleModules_def)

text \<open>
  Claim C1. The rank of a severity is its position in the enumeration \<^verbatim>\<open>MessageType\<close>. When
  the severity of the message stands at position \<open>i\<close>, the configured level names, after
  upper-casing, the member at position \<open>j\<close>, and \<open>i < j\<close>, then \<^verbatim>\<open>notifyAll\<close> returns a
  resolved promise and leaves the state as it was: no channel is invoked and nothing is
  logged.
\<close>

theorem notifyAll_below_minimum:
  assumes keys: "distinct (map fst (MessageType md))"
    and j: "j < length (MessageType md)" and ij: "i < j"
    and sev: "messageType m = snd (MessageType md ! i)"
    and lvl: "toUpperCase (NOTIFIER_LEVEL e) = fst (MessageType md ! j)"
  shows "notifyAll md e st m = (Resolved, st)"
proof -
  from ij j have i: "i < length (map snd (MessageType md))" by simp
  have "indexOf (map snd (MessageType md)) (messageType m) \<le> int i"
    using indexOf_nth_le [OF i] i sev by simp
  moreover have "indexOf (map fst (MessageType md)) (toUpperCase (NOTIFIER_LEVEL e)) = int j"
    using indexOf_nth_distinct [OF keys, of j] j lvl by simp
  ultimately show ?thesis using ij by (intro notifyAll_blocked) simp
qed

text \<open>An \<^verbatim>\<open>Info\<close> message under the level \<^verbatim>\<open>warn\<close> reaches neither of the two channels.\<close>

theorem notifyAll_below_minimum_witness:
  "notifyAll exampleModules (exampleEnv ''warn'' True) (startedState ''warn'')
      (exampleMessage ''Info'')
     = (Resolved, startedState ''warn'')
   \<and> delivered (startedState ''warn'') = []"
proof -
  have keys: "distinct (map fst (MessageType exampleModules))"
    by (simp add: exampleKeys)
  have j: "3 < length (MessageType exampleModules)" by (simp add: exampleModules_def)
  have ij: "(1::nat) < 3" by simp
  have sev: "messageType (exampleMessage ''Info'') = snd (MessageType exampleModules ! 1)"
    by (simp add: exampleModules_def exampleMessage_def)
  have lvl: "toUpperCase (NOTIFIER_LEVEL (exampleEnv ''warn'' True))
               = fst (MessageType exampleModules ! 3)"
    by code_simp
  from notifyAll_below_minimum [OF keys j ij sev lvl]
  show ?thesis by (simp add: startedState_eq)
qed

lemma count_list_distinct: "distinct xs \<Longrightarrow> x \<in> set xs \<Longrightarrow> count_list xs x = 1"
  by (induction xs) auto

text \<open>
  Claim C2, as amended. When the severity of the message stands at position \<open>i\<close> and the
  configured level names the member at position \<open>j \<le> i\<close>, one call of \<^verbatim>\<open>notifyAll\<close> adds
  to the calls of \<^verbatim>\<open>notify\<close> exactly one call for every entry of the registry, in registry
  order, each with the message that was passed to \<^verbatim>\<open>notifyAll\<close>. A channel is therefore
  invoked as many times as it occurs in the registry: exactly once when the registry holds
  no channel twice, as after a single initialisation.
\<close>

theorem notifyAll_at_or_above_minimum:
  assumes vals: "distinct (map snd (MessageType md))"
    and i: "i < length (MessageType md)" and ji: "j \<le> i"
    and sev: "messageType m = snd (MessageType md ! i)"
    and lvl: "toUpperCase (NOTIFIER_LEVEL e) = fst (MessageType md ! j)"
  shows "delivered (snd (notifyAll md e st m))
           = delivered st @ map (\<lambda>n. (n, m)) (notifiers st)
       \<and> (\<forall>c. count_list (map fst (drop (length (delivered st))
                                  (delivered (snd (notifyAll md e st m))))) c
               = count_list (notifiers st) c)
       \<and> (distinct (notifiers st) \<longrightarrow>
            (\<forall>c\<in>set (notifiers st).
               count_list (map fst (drop (length (delivered st))
                                      (delivered (snd (notifyAll md e st m))))) c = 1))"
proof -
  from ji i have j: "j < length (map fst (MessageType md))" by simp
  have "indexOf (map snd (MessageType md)) (messageType m) = int i"
    using indexOf_nth_distinct [OF vals, of i] i sev by simp
  moreover have "indexOf (map fst (MessageType md)) (toUpperCase (NOTIFIER_LEVEL e)) \<le> int j"
    using indexOf_nth_le [OF j] j lvl by simp
  ultimately have pass: "\<not> indexOf (map snd (MessageType md)) (messageType m)
      < indexOf (map fst (MessageType md)) (toUpperCase (NOTIFIER_LEVEL e))"
    using ji by simp
  have d: "delivered (snd (notifyAll md e st m))
             = delivered st @ map (\<lambda>n. (n, m)) (notifiers st)"
    using pass by (rule notifyAll_passed_delivered)
  have new: "map fst (drop (length (delivered st)) (delivered (snd (notifyAll md e st m))))
               = notifiers st"
    by (simp add: d comp_def)
  show ?thesis
    unfolding new using d by (simp add: count_list_distinct)
qed

text \<open>After one initialisation an \<^verbatim>\<open>Error\<close> message under the level \<^verbatim>\<open>warn\<close> reaches both
  channels, each of them once.\<close>

theorem notifyAll_at_or_above_minimum_witness:
  "delivered (snd (notifyAll exampleModules (exampleEnv ''warn'' True) (startedState ''warn'')
                     (exampleMessage ''Error'')))
     = [(spy ''gmail'' (FulfilsAt 1), exampleMessage ''Error''),
        (spy ''telegram'' (FulfilsAt 2), exampleMessage ''Error'')]
   \<and> count_list (map fst (delivered (snd (notifyAll exampleModules (exampleEnv ''warn'' True)
                     (startedState ''warn'') (exampleMessage ''Error'')))))
        (spy ''gmail'' (FulfilsAt 1)) = 1"
proof -
  have vals: "distinct (map snd (MessageType exampleModules))"
    by (simp add: exampleVals)
  have i: "4 < length (MessageType exampleModules)" by (simp add: exampleModules_def)
  have ji: "(3::nat) \<le> 4" by simp
  have sev: "messageType (exampleMessage ''Error'') = snd (MessageType exampleModules ! 4)"
    by (simp add: exampleModules_def exampleMessage_def)
  have lvl: "toUpperCase (NOTIFIER_LEVEL (exampleEnv ''warn'' True))
               = fst (MessageType exampleModules ! 3)"
    by code_simp
  have dist: "distinct (notifiers (startedState ''warn''))"
    by (simp add: startedState_eq spy_def)
  have mem: "spy ''gmail'' (FulfilsAt 1) \<in> set (notifiers (startedState ''warn''))"
    by (simp add: startedState_eq)
  have empty: "length (delivered (startedState ''warn'')) = 0"
    by (simp add: startedState_eq)
  note all = notifyAll_at_or_above_minimum [OF vals i ji sev lvl, of "startedState ''warn''"]
  from all have a: "delivered (snd (notifyAll exampleModules (exampleEnv ''warn'' True)
      (startedState ''warn'') (exampleMessage ''Error'')))
     = [(spy ''gmail'' (FulfilsAt 1), exampleMessage ''Error''),
        (spy ''telegram'' (FulfilsAt 2), exampleMessage ''Error'')]"
    by (simp add: startedState_eq)
  from all dist mem have "count_list (map fst (drop (length (delivered (startedState ''warn'')))
      (delivered (snd (notifyAll exampleModules (exampleEnv ''warn'' True)
                     (startedState ''warn'') (exampleMessage ''Error'')))))) 
        (spy ''gmail'' (FulfilsAt 1)) = 1"
    by blast
  then have b: "count_list (map fst (delivered (snd (notifyAll exampleModules
      (exampleEnv ''warn'' True) (startedState ''warn'') (exampleMessage ''Error'')))))
        (spy ''gmail'' (FulfilsAt 1)) = 1"
    by (simp only: empty drop_0)
  from a b show ?thesis by (rule conjI)
qed

lemma twiceStarted_eq:
  "(initializeNotifiers exampleModules (exampleEnv level True) ^^ 2) emptyState
     = \<lparr>notifiers = [spy ''gmail'' (FulfilsAt 1), spy ''telegram'' (FulfilsAt 2),
                     spy ''gmail'' (FulfilsAt 1), spy ''telegram'' (FulfilsAt 2)],
        logged = [], delivered = []\<rparr>"
  by (simp add: numeral_2_eq_2 initializeNotifiers_def exampleModules_def exampleEnv_def
      emptyState_def)

text \<open>
  Claim C2 as stated promises one invocation for every channel of the registry. After two
  initialisations the registry holds each channel twice, and an \<^verbatim>\<open>Error\<close> message under the
  level \<^verbatim>\<open>warn\<close>, which is at the minimum or above, invokes the gmail channel twice.
\<close>

theorem once_per_channel_counterexample:
  "messageType (exampleMessage ''Error'') = snd (MessageType exampleModules ! 4)
   \<and> toUpperCase (NOTIFIER_LEVEL (exampleEnv ''warn'' True)) = fst (MessageType exampleModules ! 3)
   \<and> gmail exampleModules
        \<in> set (notifiers ((initializeNotifiers exampleModules (exampleEnv ''warn'' True) ^^ 2)
                            emptyState))
   \<and> count_list
        (map fst (delivered (snd (notifyAll exampleModules (exampleEnv ''warn'' True)
           ((initializeNotifiers exampleModules (exampleEnv ''warn'' True) ^^ 2) emptyState)
           (exampleMessage ''Error'')))))
        (gmail exampleModules) = 2"
proof -
  have sev: "messageType (exampleMessage ''Error'') = snd (MessageType exampleModules ! 4)"
    by (simp add: exampleModules_def exampleMessage_def)
  have lvl: "toUpperCase (NOTIFIER_LEVEL (exampleEnv ''warn'' True))
               = fst (MessageType exampleModules ! 3)"
    by code_simp
  have g: "gmail exampleModules = spy ''gmail'' (FulfilsAt 1)"
    by (simp add: exampleModules_def)
  have mem: "gmail exampleModules
        \<in> set (notifiers ((initializeNotifiers exampleModules (exampleEnv ''warn'' True) ^^ 2)
                            emptyState))"
    by (simp add: twiceStarted_eq g)
  have pass: "\<not> indexOf (map snd (MessageType exampleModules))
                   (messageType (exampleMessage ''Error''))
                < indexOf (map fst (MessageType exampleModules))
                   (toUpperCase (NOTIFIER_LEVEL (exampleEnv ''warn'' True)))"
    by code_simp
  have cnt: "count_list
        (map fst (delivered (snd (notifyAll exampleModules (exampleEnv ''warn'' True)
           ((initializeNotifiers exampleModules (exampleEnv ''warn'' True) ^^ 2) emptyState)
           (exampleMessage ''Error'')))))
        (gmail exampleModules) = 2"
    by (simp add: notifyAll_passed_delivered [OF pass] twiceStarted_eq g spy_def comp_def)
  from sev lvl mem cnt show ?thesis by (intro conjI)
qed

subsection \<open>Failures\<close>

lemma firstRejection_None:
  "firstRejection ps = None \<Longrightarrow> RejectsAt t r \<notin> set ps"
  by (induction ps rule: firstRejection.induct) (auto split: option.splits if_splits)

lemma firstRejection_Some:
  "firstRejection ps = Some (t, r) \<Longrightarrow>
     RejectsAt t r \<in> set ps \<and> (\<forall>t' r'. RejectsAt t' r' \<in> set ps \<longrightarrow> t \<le> t')"
proof (induction ps arbitrary: t r)
  case Nil
  then show ?case by simp
next
  case (Cons p ps)
  show ?case
  proof (cases p)
    case Never
    with Cons show ?thesis by auto
  next
    case (FulfilsAt v)
    with Cons show ?thesis by auto
  next
    case (RejectsAt u q)
    show ?thesis
    proof (cases "firstRejection ps")
      case None
      with Cons.prems RejectsAt have "t = u" "r = q" by simp_all
      with firstRejection_None [OF None] RejectsAt show ?thesis by auto
    next
      case (Some a)
      obtain t' r' where a: "a = (t', r')" by (cases a)
      from Cons.IH [of t' r'] Some a
      have ih: "RejectsAt t' r' \<in> set ps" "\<forall>v w. RejectsAt v w \<in> set ps \<longrightarrow> t' \<le> v"
        by simp_all
      show ?thesis
      proof (cases "u \<le> t'")
        case True
        with Cons.prems RejectsAt Some a have "t = u" "r = q" by simp_all
        with ih True RejectsAt show ?thesis by fastforce
      next
        case False
        with Cons.prems RejectsAt Some a have "t = t'" "r = r'" by simp_all
        with ih False RejectsAt show ?thesis by fastforce
      qed
    qed
  qed
qed

text \<open>
  Claim C3. In a fan-out that passed the gate, let a channel reject with \<open>E\<close> at instant
  \<open>t\<close>, every rejection with another reason being observed later: \<open>E\<close> is the first
  failure observed. Then the promise of \<^verbatim>\<open>notifyAll\<close> is rejected with \<open>E\<close>, and the
  logger receives exactly one new entry, \<open>E\<close>.
\<close>

theorem notifyAll_rejects_first_failure:
  assumes gate: "\<not> indexOf (map snd (MessageType md)) (messageType m)
                    < indexOf (map fst (MessageType md)) (toUpperCase (NOTIFIER_LEVEL e))"
    and c: "c \<in> set (notifiers st)" and rej: "notify c m = RejectsAt t E"
    and first: "\<forall>c'\<in>set (notifiers st). \<forall>t' E'.
                  notify c' m = RejectsAt t' E' \<longrightarrow> t < t' \<or> E' = E"
  shows "fst (notifyAll md e st m) = Rejected E
         \<and> logged (snd (notifyAll md e st m)) = logged st @ [E]"
proof -
  let ?ps = "map (\<lambda>n. notify n m) (notifiers st)"
  from c rej have mem: "RejectsAt t E \<in> set ?ps" by force
  with firstRejection_None [of ?ps t E] obtain t0 r0
    where fr: "firstRejection ?ps = Some (t0, r0)"
    by (cases "firstRejection ?ps") auto
  from firstRejection_Some [OF fr] mem
  have in0: "RejectsAt t0 r0 \<in> set ?ps" and le: "t0 \<le> t" by auto
  from in0 obtain c0 where c0: "c0 \<in> set (notifiers st)" "notify c0 m = RejectsAt t0 r0"
    by auto
  with first have "t < t0 \<or> r0 = E" by blast
  with le have "r0 = E" by simp
  with fr have "Promise_all ?ps = Rejected E" by (simp add: Promise_all_def)
  with gate show ?thesis by (simp add: notifyAll_def Let_def)
qed

text \<open>One channel rejects with \<open>E\<close>, the other one resolves.\<close>

theorem notifyAll_rejects_first_failure_witness:
  "fst (notifyAll exampleModules (exampleEnv ''info'' True) failingState (exampleMessage ''Error''))
     = Rejected ''E''
   \<and> logged (snd (notifyAll exampleModules (exampleEnv ''info'' True) failingState
                  (exampleMessage ''Error''))) = [''E'']"
proof -
  have gate: "\<not> indexOf (map snd (MessageType exampleModules))
                   (messageType (exampleMessage ''Error''))
                < indexOf (map fst (MessageType exampleModules))
                   (toUpperCase (NOTIFIER_LEVEL (exampleEnv ''info'' True)))"
    by code_simp
  have c: "spy ''mail'' (RejectsAt 5 ''E'') \<in> set (notifiers failingState)"
    by (simp add: failingState_def)
  have rej: "notify (spy ''mail'' (RejectsAt 5 ''E'')) (exampleMessage ''Error'')
               = RejectsAt 5 ''E''"
    by (simp add: spy_def)
  have first: "\<forall>c'\<in>set (notifiers failingState). \<forall>t' E'.
                 notify c' (exampleMessage ''Error'') = RejectsAt t' E' \<longrightarrow> 5 < t' \<or> E' = ''E''"
    by (simp add: failingState_def spy_def)
  from notifyAll_rejects_first_failure [OF gate c rej first]
  show ?thesis by (simp add: failingState_def)
qed

subsection \<open>A level name outside the enumeration\<close>

text \<open>
  Claim C6, as amended. When the configured level, upper-cased, is not a member name of
  \<^verbatim>\<open>MessageType\<close>, nothing fails at start-up: \<^verbatim>\<open>initializeNotifiers\<close> registers the enabled
  channels as it always does, and the gate of \<^verbatim>\<open>notifyAll\<close> lets every message pass, so
  that each registered channel is invoked whatever the severity of the message.
\<close>

theorem notifyAll_unknown_level:
  assumes "toUpperCase (NOTIFIER_LEVEL e) \<notin> set (map fst (MessageType md))"
  shows "notifiers (initializeNotifiers md e st)
           = notifiers st @ (if IS_NOTIFIER_GMAIL_ENABLED e then [gmail md] else [])
               @ (if IS_NOTIFIER_TELEGRAM_ENABLED e then [telegram md] else [])
         \<and> delivered (snd (notifyAll md e st m))
           = delivered st @ map (\<lambda>n. (n, m)) (notifiers st)"
proof -
  from assms have "indexOf (map fst (MessageType md)) (toUpperCase (NOTIFIER_LEVEL e)) = - 1"
    by (rule indexOf_absent)
  with indexOf_lower [of "map snd (MessageType md)" "messageType m"]
  have "\<not> indexOf (map snd (MessageType md)) (messageType m)
            < indexOf (map fst (MessageType md)) (toUpperCase (NOTIFIER_LEVEL e))"
    by simp
  then have "delivered (snd (notifyAll md e st m))
               = delivered st @ map (\<lambda>n. (n, m)) (notifiers st)"
    by (rule notifyAll_passed_delivered)
  moreover have "notifiers (initializeNotifiers md e st)
           = notifiers st @ (if IS_NOTIFIER_GMAIL_ENABLED e then [gmail md] else [])
               @ (if IS_NOTIFIER_TELEGRAM_ENABLED e then [telegram md] else [])"
    by (simp add: initializeNotifiers_def)
  ultimately show ?thesis by simp
qed

text \<open>Under the level \<^verbatim>\<open>verbose\<close> a message of the lowest severity reaches both channels.\<close>

theorem notifyAll_unknown_level_witness:
  "delivered (snd (notifyAll exampleModules (exampleEnv ''verbose'' True)
                     (startedState ''verbose'') (exampleMessage ''Debug'')))
     = [(spy ''gmail'' (FulfilsAt 1), exampleMessage ''Debug''),
        (spy ''telegram'' (FulfilsAt 2), exampleMessage ''Debug'')]"
proof -
  have "toUpperCase (NOTIFIER_LEVEL (exampleEnv ''verbose'' True))
          \<notin> set (map fst (MessageType exampleModules))"
    by code_simp
  from notifyAll_unknown_level [OF this, of "startedState ''verbose''" "exampleMessage ''Debug''"]
  show ?thesis by (simp add: startedState_eq)
qed

text \<open>
  Claim C6 as stated asks for a failure at start-up. With the level \<^verbatim>\<open>verbose\<close>, which
  names no severity, start-up returns a registry holding both channels, and a \<^verbatim>\<open>Debug\<close>
  message is then delivered to both.
\<close>

theorem fail_fast_counterexample:
  "toUpperCase (NOTIFIER_LEVEL (exampleEnv ''verbose'' True))
     \<notin> set (map fst (MessageType exampleModules))
   \<and> map ident (notifiers (startedState ''verbose'')) = [''gmail'', ''telegram'']
   \<and> map (ident \<circ> fst)
        (delivered (snd (notifyAll exampleModules (exampleEnv ''verbose'' True)
                           (startedState ''verbose'') (exampleMessage ''Debug''))))
       = [''gmail'', ''telegram'']"
proof -
  have a: "toUpperCase (NOTIFIER_LEVEL (exampleEnv ''verbose'' True))
     \<notin> set (map fst (MessageType exampleModules))" by code_simp
  have b: "map ident (notifiers (startedState ''verbose'')) = [''gmail'', ''telegram'']"
    by (simp add: startedState_eq spy_def)
  have g: "\<not> indexOf (map snd (MessageType exampleModules)) (messageType (exampleMessage ''Debug''))
     < indexOf (map fst (MessageType exampleModules))
         (toUpperCase (NOTIFIER_LEVEL (exampleEnv ''verbose'' True)))"
    by code_simp
  have c: "map (ident \<circ> fst)
        (delivered (snd (notifyAll exampleModules (exampleEnv ''verbose'' True)
                           (startedState ''verbose'') (exampleMessage ''Debug''))))
       = [''gmail'', ''telegram'']"
    by (simp add: notifyAll_passed_delivered [OF g] startedState_eq spy_def)
  from a b c show ?thesis by simp
qed

subsection \<open>Repeated initialisation\<close>

lemma initializeNotifiers_notifiers:
  "notifiers (initializeNotifiers md e st)
     = notifiers st @ (if IS_NOTIFIER_GMAIL_ENABLED e then [gmail md] else [])
         @ (if IS_NOTIFIER_TELEGRAM_ENABLED e then [telegram md] else [])"
  by (simp add: initializeNotifiers_def)

lemma initializeNotifiers_delivered:
  "delivered (initializeNotifiers md e st) = delivered st"
  by (simp add: initializeNotifiers_def)

lemma funpow_initializeNotifiers_delivered:
  "delivered ((initializeNotifiers md e ^^ n) st) = delivered st"
  by (induction n) (simp_all add: initializeNotifiers_delivered)

lemma funpow_initializeNotifiers_count:
  assumes "gmail md \<noteq> telegram md"
  shows "count_list (notifiers ((initializeNotifiers md e ^^ n) st)) (gmail md)
           = count_list (notifiers st) (gmail md) + (if IS_NOTIFIER_GMAIL_ENABLED e then n else 0)
       \<and> count_list (notifiers ((initializeNotifiers md e ^^ n) st)) (telegram md)
           = count_list (notifiers st) (telegram md)
               + (if IS_NOTIFIER_TELEGRAM_ENABLED e then n else 0)"
  using assms by (induction n) (auto simp: initializeNotifiers_notifiers)

text \<open>
  Claim C10. Starting from the empty module-level list, \<open>n\<close> calls of
  \<^verbatim>\<open>initializeNotifiers\<close> under one configuration leave every enabled channel \<open>n\<close> times in
  the list (and a disabled one not at all), and a call of \<^verbatim>\<open>notifyAll\<close> that passes the
  gate then invokes \<^verbatim>\<open>notify\<close> of every enabled channel \<open>n\<close> times.
\<close>

theorem initializeNotifiers_accumulates:
  assumes distinct: "gmail md \<noteq> telegram md"
    and gate: "\<not> indexOf (map snd (MessageType md)) (messageType m)
                    < indexOf (map fst (MessageType md)) (toUpperCase (NOTIFIER_LEVEL e))"
    and st: "st = (initializeNotifiers md e ^^ n) emptyState"
  shows "count_list (notifiers st) (gmail md) = (if IS_NOTIFIER_GMAIL_ENABLED e then n else 0)
       \<and> count_list (notifiers st) (telegram md)
           = (if IS_NOTIFIER_TELEGRAM_ENABLED e then n else 0)
       \<and> count_list (map fst (delivered (snd (notifyAll md e st m)))) (gmail md)
           = (if IS_NOTIFIER_GMAIL_ENABLED e then n else 0)
       \<and> count_list (map fst (delivered (snd (notifyAll md e st m)))) (telegram md)
           = (if IS_NOTIFIER_TELEGRAM_ENABLED e then n else 0)"
proof -
  have d: "delivered st = []"
    unfolding st by (simp add: funpow_initializeNotifiers_delivered emptyState_def)
  have c: "count_list (notifiers st) (gmail md) = (if IS_NOTIFIER_GMAIL_ENABLED e then n else 0)"
    "count_list (notifiers st) (telegram md) = (if IS_NOTIFIER_TELEGRAM_ENABLED e then n else 0)"
    unfolding st
    using funpow_initializeNotifiers_count [OF distinct, where e = e and n = n and st = emptyState]
    by (simp_all add: emptyState_def)
  have "map fst (delivered (snd (notifyAll md e st m))) = notifiers st"
    by (simp add: notifyAll_passed_delivered [OF gate] d comp_def)
  with c show ?thesis by simp
qed

text \<open>Three initialisations: each channel is registered, and then invoked, three times.\<close>

theorem initializeNotifiers_accumulates_witness:
  "count_list (notifiers ((initializeNotifiers exampleModules (exampleEnv ''info'' True) ^^ 3)
                 emptyState)) (gmail exampleModules) = 3
   \<and> count_list (map fst (delivered (snd (notifyAll exampleModules (exampleEnv ''info'' True)
        ((initializeNotifiers exampleModules (exampleEnv ''info'' True) ^^ 3) emptyState)
        (exampleMessage ''Info''))))) (telegram exampleModules) = 3"
proof -
  have distinct: "gmail exampleModules \<noteq> telegram exampleModules"
    by (simp add: exampleModules_def spy_def)
  have gate: "\<not> indexOf (map snd (MessageType exampleModules))
                   (messageType (exampleMessage ''Info''))
                < indexOf (map fst (MessageType exampleModules))
                   (toUpperCase (NOTIFIER_LEVEL (exampleEnv ''info'' True)))"
    by code_simp
  from initializeNotifiers_accumulates [OF distinct gate refl, of 3]
  show ?thesis by (simp add: exampleEnv_def)
qed

section \<open>Properties of the renderer\<close>

subsection \<open>Fragments inside joined and trimmed text\<close>

lemma sublist_mid:
  assumes "sublist x y"
  shows "sublist x (p @ y @ q)"
proof -
  from assms obtain a b where "y = a @ x @ b" by (auto simp: sublist_def)
  then have "p @ y @ q = (p @ a) @ x @ (b @ q)" by simp
  then show ?thesis by (simp only: sublist_appendI)
qed

lemma sublist_join: "x \<in> set xs \<Longrightarrow> sublist x (join sep xs)"
proof (induction sep xs rule: join.induct)
  case (1 sep)
  then show ?case by simp
next
  case (2 sep y)
  then show ?case by simp
next
  case (3 sep y z zs)
  show ?case
  proof (cases "x = y")
    case True
    then show ?thesis by (simp add: sublist_append_rightI)
  next
    case False
    with "3.prems" have "x \<in> set (z # zs)" by simp
    from "3.IH" [OF this] have "sublist x (join sep (z # zs))" .
    then have "sublist x ((y @ sep) @ join sep (z # zs) @ [])" by (rule sublist_mid)
    then show ?thesis by simp
  qed
qed

lemma dropWhile_keeps:
  assumes "m \<noteq> []" and "\<not> P (hd m)"
  shows "\<exists>p'. dropWhile P (p @ m @ q) = p' @ m @ q"
proof (cases "\<forall>x\<in>set p. P x")
  case True
  from assms obtain a m' where m: "m = a # m'" "\<not> P a" by (cases m) auto
  with True have "dropWhile P (p @ m @ q) = [] @ m @ q"
    by (simp add: dropWhile_append)
  then show ?thesis by blast
next
  case False
  then have "dropWhile P (p @ m @ q) = dropWhile P p @ m @ q"
    by (auto simp: dropWhile_append)
  then show ?thesis by blast
qed

lemma trim_sublist:
  assumes sub: "sublist m s" and ne: "m \<noteq> []"
    and h: "\<not> isSpace (hd m)" and l: "\<not> isSpace (last m)"
  shows "sublist m (trim s)"
proof -
  from sub obtain p q where s: "s = p @ m @ q" by (auto simp: sublist_def)
  from dropWhile_keeps [where P = isSpace and m = m and p = p and q = q, OF ne h] obtain p' where
    a: "dropWhile isSpace (p @ m @ q) = p' @ m @ q" by blast
  have "rev m \<noteq> []" "\<not> isSpace (hd (rev m))" using ne l by (simp_all add: hd_rev)
  from dropWhile_keeps [where P = isSpace and m = "rev m" and p = "rev q" and q = "rev p'", OF this]
  obtain q' where
    b: "dropWhile isSpace (rev q @ rev m @ rev p') = q' @ rev m @ rev p'" by blast
  have "trim s = p' @ m @ rev q'"
    by (simp add: trim_def s a b)
  then show ?thesis by (auto simp: sublist_def)
qed

subsection \<open>The fields of the rendered message\<close>

lemma subject_base:
  "subject (getNotifierMessage md e mt source signal tradeOpen reason)
     = base mt signal tradeOpen"
  by (simp add: getNotifierMessage_def Let_def split: prod.splits)

lemma contentHtml_short:
  "IS_NOTIFIER_SHORT e \<Longrightarrow>
   contentHtml (getNotifierMessage md e mt source signal tradeOpen reason)
     = baseHtml md mt signal tradeOpen
         @ join ''<br/>'' (snd (shortContent md e mt source tradeOpen reason))"
  by (simp add: getNotifierMessage_def Let_def split: prod.splits)

lemma content_short_trade:
  "IS_NOTIFIER_SHORT e \<Longrightarrow>
   content (getNotifierMessage md e mt source signal (Some t) reason)
     = trim (fst (shortContent md e mt source (Some t) reason) @ '' ''
             @ join ''. '' (snd (shortContent md e mt source (Some t) reason))
             @ action signal (Some t))
       @ '' '' @ TradeOpen.strategyName t @ ''.''"
  by (simp add: getNotifierMessage_def Let_def split: prod.splits)

lemma duration_collected:
  assumes "isMember md ''SUCCESS'' mt" "timeBuy t = Some tb" "timeSell t = Some ts"
  shows "duration md t tb ts \<in> set (snd (shortContent md e mt source (Some t) reason))"
  using assms
  by (auto simp: shortContent_def Let_def split: option.splits prod.splits)

lemma reason_collected:
  assumes "reason = Some r" "r \<noteq> []"
  shows "(if last r = CHR ''.'' then butlast r else r)
           \<in> set (snd (shortContent md e mt source tradeOpen reason))"
  using assms
  by (auto simp: shortContent_def Let_def split: option.splits prod.splits)

subsection \<open>The action clause of the subject\<close>

text \<open>
  Claim C5, as amended. The subject is the severity, a space and the action, trimmed. If a
  signal is present the action is built from the fields of the signal, entry type, symbol
  and position type, and ends in \<^verbatim>\<open>trade.\<close> when a trade is present too and in \<^verbatim>\<open>signal.\<close>
  otherwise; a trade decides the last word only. Without a signal, a trade gives its
  symbol and position type followed by \<^verbatim>\<open>trade.\<close>; without both the action is
  \<^verbatim>\<open>Notification.\<close>.
\<close>

theorem subject_action_precedence:
  "subject (getNotifierMessage md e mt source signal tradeOpen reason)
     = trim (mt @ '' '' @
         (case signal of
            Some s \<Rightarrow>
              Signal.entryType s @ '' '' @ Signal.symbol s @ '' '' @ Signal.positionType s @ '' ''
                @ (case tradeOpen of Some t \<Rightarrow> ''trade'' | None \<Rightarrow> ''signal'') @ ''.''
          | None \<Rightarrow>
              (case tradeOpen of
                 Some t \<Rightarrow> TradeOpen.symbol t @ '' '' @ TradeOpen.positionType t @ '' trade.''
               | None \<Rightarrow> ''Notification.'')))"
  by (simp add: subject_base base_def action_def typeOf_def split: option.splits)

text \<open>The four combinations of signal and trade.\<close>

theorem subject_action_precedence_witness:
  "subject (getNotifierMessage exampleModules (exampleEnv ''info'' True) ''Info'' None
              (Some exampleSignal) (Some (exampleTrade ''short'' 45)) None)
     = ''Info enter BTCUSDT long trade.''
   \<and> subject (getNotifierMessage exampleModules (exampleEnv ''info'' True) ''Info'' None
              None (Some (exampleTrade ''short'' 45)) None)
     = ''Info ETHUSDT short trade.''
   \<and> subject (getNotifierMessage exampleModules (exampleEnv ''info'' True) ''Info'' None
              (Some exampleSignal) None None)
     = ''Info enter BTCUSDT long signal.''
   \<and> subject (getNotifierMessage exampleModules (exampleEnv ''info'' True) ''Info'' None
              None None None)
     = ''Info Notification.''"
  unfolding subject_action_precedence by code_simp

text \<open>
  Claim C5 as stated lets the trade supply the fields of the action whenever a trade is
  present. For a signal on BTCUSDT (long) together with a trade on ETHUSDT (short), the
  subject carries the fields of the signal; neither the symbol nor the position type of
  the trade occurs in it.
\<close>

theorem trade_overrides_signal_counterexample:
  "subject (getNotifierMessage exampleModules (exampleEnv ''info'' True) ''Info'' None
              (Some exampleSignal) (Some (exampleTrade ''short'' 45)) None)
     = ''Info enter BTCUSDT long trade.''
   \<and> \<not> sublist (TradeOpen.symbol (exampleTrade ''short'' 45))
        (subject (getNotifierMessage exampleModules (exampleEnv ''info'' True) ''Info'' None
              (Some exampleSignal) (Some (exampleTrade ''short'' 45)) None))
   \<and> \<not> sublist (TradeOpen.positionType (exampleTrade ''short'' 45))
        (subject (getNotifierMessage exampleModules (exampleEnv ''info'' True) ''Info'' None
              (Some exampleSignal) (Some (exampleTrade ''short'' 45)) None))"
  by code_simp

subsection \<open>The score line of the verbose body\<close>

text \<open>
  Claim C7 asks for a score line that shows \<^verbatim>\<open>N/A\<close> for the score \<^verbatim>\<open>NA\<close> and the score
  itself otherwise. The code pushes the bare label: for a signal whose score is \<^verbatim>\<open>NA\<close>
  the verbose body has the line \<^verbatim>\<open>score: \<close> with nothing after it, and \<^verbatim>\<open>N/A\<close> occurs
  nowhere in the body.
\<close>

theorem verbose_score_line_evaluated:
  "Signal.score exampleSignal = ''NA''
   \<and> content (getNotifierMessage exampleModules (exampleEnv ''info'' False) ''Info''
        (Some ''Signal'') (Some exampleSignal) None None)
     = ''Info enter BTCUSDT long signal. '' @ [CHR 0x0A] @ ''source: Signal'' @ [CHR 0x0A]
        @ ''strategy: Alpha'' @ [CHR 0x0A] @ ''signal price: 27000'' @ [CHR 0x0A]
        @ ''score: '' @ [CHR 0x0A] @ ''signal received: 2023-11-14T22:13:20.123Z''
   \<and> \<not> sublist ''N/A''
        (content (getNotifierMessage exampleModules (exampleEnv ''info'' False) ''Info''
           (Some ''Signal'') (Some exampleSignal) None None))"
  by code_simp

text \<open>More generally, the verbose message does not depend on the score at all.\<close>

lemma verbose_body_ignores_score:
  "\<not> IS_NOTIFIER_SHORT e \<Longrightarrow>
   getNotifierMessage md e mt source (Some (s\<lparr>score := x\<rparr>)) tradeOpen reason
     = getNotifierMessage md e mt source (Some s) tradeOpen reason"
  by (simp add: getNotifierMessage_def verboseContent_def base_def baseHtml_def action_def
      typeOf_def Let_def split: option.splits)

subsection \<open>The duration of the short body\<close>

text \<open>The text produced by \<^verbatim>\<open>format\<close> with one decimal starts with a digit or a minus sign.\<close>

lemma digitChars: "map digitChar [0, 1, 2, 3, 4, 5, 6, 7, 8, 9] = ''0123456789''"
  by code_simp

lemma upto_0_9: "[0..9] = [0, 1, 2, 3, 4, 5, 6, 7, 8, 9]"
  by code_simp

lemma digitChar_range:
  assumes "0 \<le> d" "d < 10"
  shows "digitChar d \<in> set ''0123456789''"
proof -
  from assms have "d \<in> set [0..9]" by simp
  then have "d \<in> set [0, 1, 2, 3, 4, 5, 6, 7, 8, 9]" by (simp only: upto_0_9)
  then have "digitChar d \<in> set (map digitChar [0, 1, 2, 3, 4, 5, 6, 7, 8, 9])"
    by (simp only: set_map) (rule imageI)
  then show ?thesis by (simp only: digitChars)
qed

lemma digits_nonempty: "digits n \<noteq> []"
  by (subst digits.simps) (simp del: digits.simps)

lemma digits_set: "0 \<le> n \<Longrightarrow> set (digits n) \<subseteq> set ''0123456789''"
proof (induction n rule: digits.induct)
  case (1 n)
  show ?case
  proof (cases "n < 10")
    case True
    with "1.prems" have "digitChar n \<in> set ''0123456789''" by (intro digitChar_range)
    moreover from True have "digits n = [digitChar n]"
      by (subst digits.simps) (simp del: digits.simps)
    ultimately show ?thesis by (simp del: digits.simps)
  next
    case False
    then have eq: "digits n = digits (n div 10) @ [digitChar (n mod 10)]"
      by (subst digits.simps) (simp del: digits.simps)
    from False "1.prems" have "set (digits (n div 10)) \<subseteq> set ''0123456789''"
      by (intro "1.IH") (simp_all del: digits.simps)
    moreover have "digitChar (n mod 10) \<in> set ''0123456789''"
      by (intro digitChar_range) simp_all
    ultimately show ?thesis unfolding eq by (simp del: digits.simps)
  qed
qed

lemma padZeros_set: "0 \<le> n \<Longrightarrow> set (padZeros w n) \<subseteq> set ''0123456789''"
  using digits_set [of n] by (auto simp: padZeros_def Let_def simp del: digits.simps)

lemma padZeros_length: "w \<le> length (padZeros w n)"
  by (simp add: padZeros_def Let_def del: digits.simps)

lemma toFixed_one_shape:
  "\<exists>D c. toFixed x (Suc 0) = (if x < 0 then ''-'' else []) @ D @ ''.'' @ [c]
         \<and> D \<noteq> [] \<and> set D \<subseteq> set ''0123456789''"
proof -
  let ?n = "\<lfloor>\<bar>x\<bar> * 10 ^ Suc 0 + 1 / 2\<rfloor>"
  let ?d = "padZeros (Suc 0 + 1) ?n"
  have n0: "0 \<le> ?n" by simp
  have len: "2 \<le> length ?d" using padZeros_length [of "Suc 0 + 1" ?n] by simp
  then have ne: "?d \<noteq> []" by auto
  have tk: "take (length ?d - Suc 0) ?d = butlast ?d" by (simp add: butlast_conv_take)
  have dr: "drop (length ?d - Suc 0) ?d = [last ?d]"
    using ne by (metis append_butlast_last_id append_take_drop_id butlast_conv_take
        One_nat_def same_append_eq)
  have bne: "butlast ?d \<noteq> []" using len by (cases ?d rule: rev_cases) auto
  have bset: "set (butlast ?d) \<subseteq> set ''0123456789''"
    using padZeros_set [OF n0, of "Suc 0 + 1"] by (meson in_set_butlastD subset_iff)
  have "toFixed x (Suc 0) = (if x < 0 then ''-'' else []) @ butlast ?d @ ''.'' @ [last ?d]"
    unfolding toFixed_def Let_def tk dr by simp
  with bne bset show ?thesis by blast
qed

lemma stripZeros_shape:
  "stripZeros (sg @ D @ ''.'' @ [c])
     = (if c = CHR ''0'' then sg @ D else sg @ D @ ''.'' @ [c])"
  by (simp add: stripZeros_def Let_def)

lemma digit_not_space: "c \<in> set ''0123456789'' \<Longrightarrow> \<not> isSpace c"
  by (auto simp: isSpace_def)

lemma format_one_head:
  "stripZeros (toFixed x (Suc 0)) \<noteq> [] \<and> \<not> isSpace (hd (stripZeros (toFixed x (Suc 0))))"
proof -
  from toFixed_one_shape [of x] obtain D c where
    tf: "toFixed x (Suc 0) = (if x < 0 then ''-'' else []) @ D @ ''.'' @ [c]"
    and D: "D \<noteq> []" "set D \<subseteq> set ''0123456789''" by blast
  from D have hD: "\<not> isSpace (hd D)" by (intro digit_not_space) (auto simp: subset_iff)
  have m: "\<not> isSpace (CHR ''-'')" by (simp add: isSpace_def)
  show ?thesis
    unfolding tf stripZeros_shape using D(1) hD m by (auto simp: hd_append)
qed

lemma fragment_ends:
  assumes "u = '' sec'' \<or> u = '' min'' \<or> u = '' hr''"
  shows "stripZeros (toFixed x (Suc 0)) @ u \<noteq> []
       \<and> \<not> isSpace (hd (stripZeros (toFixed x (Suc 0)) @ u))
       \<and> \<not> isSpace (last (stripZeros (toFixed x (Suc 0)) @ u))"
  using assms format_one_head [of x] by (auto simp: hd_append isSpace_def)

lemma duration_unfold:
  "duration md t tb ts =
     (let ms = (if TradeOpen.positionType t = PositionType_SHORT md
                then roundDouble (0 - roundDouble (of_int ts - of_int tb))
                else roundDouble (of_int ts - of_int tb));
          s = roundDouble (ms / 1000); m = roundDouble (s / 60); h = roundDouble (m / 60)
      in if s \<le> 60 then stripZeros (toFixed s (Suc 0)) @ '' sec''
         else if m \<le> 60 then stripZeros (toFixed m (Suc 0)) @ '' min''
         else stripZeros (toFixed h (Suc 0)) @ '' hr'')"
  by (simp add: duration_def Let_def)

lemma duration_ends:
  "duration md t tb ts \<noteq> [] \<and> \<not> isSpace (hd (duration md t tb ts))
     \<and> \<not> isSpace (last (duration md t tb ts))"
proof -
  define ms where "ms = (if TradeOpen.positionType t = PositionType_SHORT md
                then roundDouble (0 - roundDouble (of_int ts - of_int tb))
                else roundDouble (of_int ts - of_int tb))"
  define s where "s = roundDouble (ms / 1000)"
  define m where "m = roundDouble (s / 60)"
  define h where "h = roundDouble (m / 60)"
  have d: "duration md t tb ts =
      (if s \<le> 60 then stripZeros (toFixed s (Suc 0)) @ '' sec''
       else if m \<le> 60 then stripZeros (toFixed m (Suc 0)) @ '' min''
       else stripZeros (toFixed h (Suc 0)) @ '' hr'')"
    by (simp only: duration_unfold Let_def ms_def s_def m_def h_def)
  consider (sec) "s \<le> 60" | (min) "\<not> s \<le> 60" "m \<le> 60" | (hr) "\<not> s \<le> 60" "\<not> m \<le> 60"
    by blast
  then show ?thesis
  proof cases
    case sec
    then have "duration md t tb ts = stripZeros (toFixed s (Suc 0)) @ '' sec''"
      by (simp only: d if_True)
    then show ?thesis by (simp only:) (rule fragment_ends, simp)
  next
    case min
    then have "duration md t tb ts = stripZeros (toFixed m (Suc 0)) @ '' min''"
      by (simp only: d if_True if_False)
    then show ?thesis by (simp only:) (rule fragment_ends, simp)
  next
    case hr
    then have "duration md t tb ts = stripZeros (toFixed h (Suc 0)) @ '' hr''"
      by (simp only: d if_False)
    then show ?thesis by (simp only:) (rule fragment_ends, simp)
  qed
qed

lemma duration_in_content:
  assumes short: "IS_NOTIFIER_SHORT e" and succ: "isMember md ''SUCCESS'' mt"
    and tb: "timeBuy t = Some tb" and ts: "timeSell t = Some ts"
  shows "sublist (duration md t tb ts)
           (content (getNotifierMessage md e mt source signal (Some t) reason))"
proof -
  let ?d = "duration md t tb ts"
  let ?c = "shortContent md e mt source (Some t) reason"
  from duration_ends [of md t tb ts]
  have ne: "?d \<noteq> []" and h: "\<not> isSpace (hd ?d)" and l: "\<not> isSpace (last ?d)"
    by blast+
  have "?d \<in> set (snd ?c)" using succ tb ts by (rule duration_collected)
  then have "sublist ?d (join ''. '' (snd ?c))" by (rule sublist_join)
  then have "sublist ?d ((fst ?c @ '' '') @ join ''. '' (snd ?c) @ action signal (Some t))"
    by (rule sublist_mid)
  then have "sublist ?d (trim ((fst ?c @ '' '') @ join ''. '' (snd ?c) @ action signal (Some t)))"
    using ne h l by (rule trim_sublist)
  then have "sublist ?d ([] @ trim ((fst ?c @ '' '') @ join ''. '' (snd ?c) @ action signal (Some t))
      @ '' '' @ TradeOpen.strategyName t @ ''.'')"
    by (rule sublist_mid)
  then show ?thesis by (simp add: content_short_trade [OF short])
qed

lemma roundDouble_values:
  "roundDouble 45000 = 45000" "roundDouble (- 45000) = - 45000" "roundDouble 45 = 45"
  "roundDouble 5400000 = 5400000" "roundDouble (- 5400000) = - 5400000"
  "roundDouble 5400 = 5400" "roundDouble 90 = 90" "roundDouble (3 / 2) = 3 / 2"
  by code_simp+

lemma stripZeros_values:
  "stripZeros (toFixed 45 (Suc 0)) = ''45''" "stripZeros (toFixed (3 / 2) (Suc 0)) = ''1.5''"
  by code_simp+

lemma fragment_45:
  assumes "ms = 45000" and "s = roundDouble (ms / 1000)"
    and "f = (if s \<le> 60 then stripZeros (toFixed s 1) @ '' sec''
              else if m \<le> 60 then stripZeros (toFixed m 1) @ '' min''
              else stripZeros (toFixed h 1) @ '' hr'')"
  shows "f = ''45 sec''"
  using assms by (simp add: roundDouble_values stripZeros_values)

lemma fragment_5400:
  assumes "ms = 5400000" and "s = roundDouble (ms / 1000)" and "m = roundDouble (s / 60)"
    and "h = roundDouble (m / 60)"
    and "f = (if s \<le> 60 then stripZeros (toFixed s 1) @ '' sec''
              else if m \<le> 60 then stripZeros (toFixed m 1) @ '' min''
              else stripZeros (toFixed h 1) @ '' hr'')"
  shows "f = ''1.5 hr''"
proof -
  from assms(1,2) have s: "s = 5400" by (simp add: roundDouble_values)
  with assms(3) have m: "m = 90" by (simp add: roundDouble_values)
  with assms(4) have h: "h = 3 / 2" by (simp add: roundDouble_values)
  from s m have "\<not> s \<le> 60" "\<not> m \<le> 60" by simp_all
  with assms(5) have "f = stripZeros (toFixed h 1) @ '' hr''" by simp
  then show ?thesis unfolding h by (simp add: stripZeros_values)
qed

text \<open>
  Claim C8, as amended. In short mode, for every \<^verbatim>\<open>SUCCESS\<close> trade event with both time
  stamps, the duration \<open>ms\<close> is sell time minus buy time in milliseconds, negated for a
  \<^verbatim>\<open>SHORT\<close> position (whose sale precedes the purchase). In double arithmetic it is divided
  by 1000 and shown in seconds if the result is at most 60; otherwise it is divided by 60
  and shown in minutes if that result is at most 60; otherwise it is divided by 60 again
  and shown in hours. The value is written by \<^verbatim>\<open>toFixed(1)\<close>, from which \<^verbatim>\<open>format\<close> strips a
  final zero together with the point. The fragment is collected and occurs in the body. A
  duration of 45 seconds gives \<^verbatim>\<open>45 sec\<close>, a duration of 5400 seconds gives \<^verbatim>\<open>1.5 hr\<close>.
\<close>

theorem short_duration_rendering:
  assumes short: "IS_NOTIFIER_SHORT e" and succ: "isMember md ''SUCCESS'' mt"
    and tb: "timeBuy t = Some tb" and ts: "timeSell t = Some ts"
    and ms: "ms = (if TradeOpen.positionType t = PositionType_SHORT md
                   then roundDouble (0 - roundDouble (of_int ts - of_int tb))
                   else roundDouble (of_int ts - of_int tb))"
    and s: "s = roundDouble (ms / 1000)"
    and m: "m = roundDouble (s / 60)"
    and h: "h = roundDouble (m / 60)"
    and f: "f = (if s \<le> 60 then stripZeros (toFixed s 1) @ '' sec''
                 else if m \<le> 60 then stripZeros (toFixed m 1) @ '' min''
                 else stripZeros (toFixed h 1) @ '' hr'')"
  shows "f \<in> set (snd (shortContent md e mt source (Some t) reason))
       \<and> sublist f (content (getNotifierMessage md e mt source signal (Some t) reason))
       \<and> (TradeOpen.positionType t \<noteq> PositionType_SHORT md \<and> ts - tb = 45000
            \<longrightarrow> f = ''45 sec'')
       \<and> (TradeOpen.positionType t = PositionType_SHORT md \<and> tb - ts = 45000
            \<longrightarrow> f = ''45 sec'')
       \<and> (TradeOpen.positionType t \<noteq> PositionType_SHORT md \<and> ts - tb = 5400000
            \<longrightarrow> f = ''1.5 hr'')
       \<and> (TradeOpen.positionType t = PositionType_SHORT md \<and> tb - ts = 5400000
            \<longrightarrow> f = ''1.5 hr'')"
proof (intro conjI impI)
  have fd: "f = duration md t tb ts"
    by (simp add: duration_unfold Let_def ms s m h f)
  show "f \<in> set (snd (shortContent md e mt source (Some t) reason))"
    unfolding fd using succ tb ts by (rule duration_collected)
  show "sublist f (content (getNotifierMessage md e mt source signal (Some t) reason))"
    unfolding fd using short succ tb ts by (rule duration_in_content)
next
  assume a: "TradeOpen.positionType t \<noteq> PositionType_SHORT md \<and> ts - tb = 45000"
  then have "rat_of_int ts - rat_of_int tb = rat_of_int (ts - tb)" by simp
  with a have "rat_of_int ts - rat_of_int tb = 45000" by simp
  with a ms have "ms = 45000" by (simp add: roundDouble_values)
  then show "f = ''45 sec''" using s f by (rule fragment_45)
next
  assume a: "TradeOpen.positionType t = PositionType_SHORT md \<and> tb - ts = 45000"
  then have "rat_of_int ts - rat_of_int tb = - rat_of_int (tb - ts)" by simp
  with a have "rat_of_int ts - rat_of_int tb = - 45000" by simp
  with a ms have "ms = 45000" by (simp add: roundDouble_values)
  then show "f = ''45 sec''" using s f by (rule fragment_45)
next
  assume a: "TradeOpen.positionType t \<noteq> PositionType_SHORT md \<and> ts - tb = 5400000"
  then have "rat_of_int ts - rat_of_int tb = rat_of_int (ts - tb)" by simp
  with a have "rat_of_int ts - rat_of_int tb = 5400000" by simp
  with a ms have "ms = 5400000" by (simp add: roundDouble_values)
  then show "f = ''1.5 hr''" using s m h f by (rule fragment_5400)
next
  assume a: "TradeOpen.positionType t = PositionType_SHORT md \<and> tb - ts = 5400000"
  then have "rat_of_int ts - rat_of_int tb = - rat_of_int (tb - ts)" by simp
  with a have "rat_of_int ts - rat_of_int tb = - 5400000" by simp
  with a ms have "ms = 5400000" by (simp add: roundDouble_values)
  then show "f = ''1.5 hr''" using s m h f by (rule fragment_5400)
qed

text \<open>
  A long trade sold 45 seconds after the purchase, a short trade bought back 5400 seconds
  after the sale, and a long trade of 69 seconds, where the quotient \<open>69 / 60\<close> as a double
  lies below 1.15.
\<close>

theorem short_duration_rendering_witness:
  "sublist ''45 sec''
     (content (getNotifierMessage exampleModules (exampleEnv ''info'' True) ''Success''
        (Some ''User'') (Some exampleSignal) (Some (exampleTrade ''long'' 45)) (Some ''Because.'')))
   \<and> sublist ''1.5 hr''
     (content (getNotifierMessage exampleModules (exampleEnv ''info'' True) ''Success''
        None None (Some (exampleTrade ''short'' (- 5400))) None))
   \<and> sublist ''1.1 min''
     (content (getNotifierMessage exampleModules (exampleEnv ''info'' True) ''Success''
        None None (Some (exampleTrade ''long'' 69)) None))"
proof -
  have short: "IS_NOTIFIER_SHORT (exampleEnv ''info'' True)" by (simp add: exampleEnv_def)
  have succ: "isMember exampleModules ''SUCCESS'' ''Success''"
    by (simp add: isMember_def exampleModules_def)
  have tb: "timeBuy (exampleTrade p x) = Some 1700000000000" for p x
    by (simp add: exampleTrade_def)
  have ts1: "timeSell (exampleTrade ''long'' 45) = Some 1700000045000"
    by (simp add: exampleTrade_def)
  have ts2: "timeSell (exampleTrade ''short'' (- 5400)) = Some 1699994600000"
    by (simp add: exampleTrade_def)
  have ts3: "timeSell (exampleTrade ''long'' 69) = Some 1700000069000"
    by (simp add: exampleTrade_def)
  have ms1: "45000 = (if TradeOpen.positionType (exampleTrade ''long'' 45)
                         = PositionType_SHORT exampleModules
       then roundDouble (0 - roundDouble (of_int 1700000045000 - of_int 1700000000000))
       else roundDouble (of_int 1700000045000 - of_int 1700000000000))"
    by code_simp
  have ms2: "5400000 = (if TradeOpen.positionType (exampleTrade ''short'' (- 5400))
                         = PositionType_SHORT exampleModules
       then roundDouble (0 - roundDouble (of_int 1699994600000 - of_int 1700000000000))
       else roundDouble (of_int 1699994600000 - of_int 1700000000000))"
    by code_simp
  have ms3: "69000 = (if TradeOpen.positionType (exampleTrade ''long'' 69)
                         = PositionType_SHORT exampleModules
       then roundDouble (0 - roundDouble (of_int 1700000069000 - of_int 1700000000000))
       else roundDouble (of_int 1700000069000 - of_int 1700000000000))"
    by code_simp
  have f1: "''45 sec'' = (if roundDouble (45000 / 1000) \<le> 60
       then stripZeros (toFixed (roundDouble (45000 / 1000)) 1) @ '' sec''
       else if roundDouble (roundDouble (45000 / 1000) / 60) \<le> 60
       then stripZeros (toFixed (roundDouble (roundDouble (45000 / 1000) / 60)) 1) @ '' min''
       else stripZeros (toFixed (roundDouble (roundDouble (roundDouble (45000 / 1000) / 60) / 60)) 1)
              @ '' hr'')"
    by code_simp
  have f2: "''1.5 hr'' = (if roundDouble (5400000 / 1000) \<le> 60
       then stripZeros (toFixed (roundDouble (5400000 / 1000)) 1) @ '' sec''
       else if roundDouble (roundDouble (5400000 / 1000) / 60) \<le> 60
       then stripZeros (toFixed (roundDouble (roundDouble (5400000 / 1000) / 60)) 1) @ '' min''
       else stripZeros (toFixed (roundDouble (roundDouble (roundDouble (5400000 / 1000) / 60) / 60)) 1)
              @ '' hr'')"
    by code_simp
  have f3: "''1.1 min'' = (if roundDouble (69000 / 1000) \<le> 60
       then stripZeros (toFixed (roundDouble (69000 / 1000)) 1) @ '' sec''
       else if roundDouble (roundDouble (69000 / 1000) / 60) \<le> 60
       then stripZeros (toFixed (roundDouble (roundDouble (69000 / 1000) / 60)) 1) @ '' min''
       else stripZeros (toFixed (roundDouble (roundDouble (roundDouble (69000 / 1000) / 60) / 60)) 1)
              @ '' hr'')"
    by code_simp
  from short_duration_rendering [OF short succ tb ts1 ms1 refl refl refl f1,
      of "Some ''User''" "Some ''Because.''" "Some exampleSignal"]
  have a: "sublist ''45 sec''
     (content (getNotifierMessage exampleModules (exampleEnv ''info'' True) ''Success''
        (Some ''User'') (Some exampleSignal) (Some (exampleTrade ''long'' 45)) (Some ''Because.'')))"
    by (rule conjunct1 [OF conjunct2])
  from short_duration_rendering [OF short succ tb ts2 ms2 refl refl refl f2, of None None None]
  have b: "sublist ''1.5 hr''
     (content (getNotifierMessage exampleModules (exampleEnv ''info'' True) ''Success''
        None None (Some (exampleTrade ''short'' (- 5400))) None))"
    by (rule conjunct1 [OF conjunct2])
  from short_duration_rendering [OF short succ tb ts3 ms3 refl refl refl f3, of None None None]
  have c: "sublist ''1.1 min''
     (content (getNotifierMessage exampleModules (exampleEnv ''info'' True) ''Success''
        None None (Some (exampleTrade ''long'' 69)) None))"
    by (rule conjunct1 [OF conjunct2])
  from a b c show ?thesis by (intro conjI)
qed

text \<open>
  Claim C8 as stated expects \<^verbatim>\<open>45.0 sec\<close> and takes sell time minus buy time for every
  trade. The body of a long trade of 45 seconds reads \<^verbatim>\<open>45 sec\<close> and does not contain
  \<^verbatim>\<open>45.0 sec\<close>; for a short trade whose sell time lies 5400 seconds after its buy time
  the body shows the negated duration in seconds and does not contain \<^verbatim>\<open>1.5 hr\<close>.
\<close>

theorem short_duration_counterexample:
  "content (getNotifierMessage exampleModules (exampleEnv ''info'' True) ''Success'' None None
              (Some (exampleTrade ''long'' 45)) None)
     = ''PROFIT! 10%. 200. 45 sec. ETHUSDT long trade. Beta.''
   \<and> \<not> sublist ''45.0 sec''
        (content (getNotifierMessage exampleModules (exampleEnv ''info'' True) ''Success'' None
                    None (Some (exampleTrade ''long'' 45)) None))
   \<and> content (getNotifierMessage exampleModules (exampleEnv ''info'' True) ''Success'' None None
              (Some (exampleTrade ''short'' 5400)) None)
     = ''PROFIT! 10%. 200. -5400 sec. ETHUSDT short trade. Beta.''
   \<and> \<not> sublist ''1.5 hr''
        (content (getNotifierMessage exampleModules (exampleEnv ''info'' True) ''Success'' None
                    None (Some (exampleTrade ''short'' 5400)) None))"
  by code_simp

subsection \<open>The html body in short mode\<close>

text \<open>
  Claim C9, as amended. In short mode the html body is the bolded or coloured variant of
  the action followed by the fragments collected for the short body (reason, profit or
  loss, cost, duration, source and the closing empty fragment), joined with \<^verbatim>\<open><br/>\<close>.
  Every collected fragment occurs in the html body, and a reason that is present and not
  empty is collected, without its final full stop.
\<close>

theorem short_html_body:
  assumes short: "IS_NOTIFIER_SHORT e"
  shows "contentHtml (getNotifierMessage md e mt source signal tradeOpen reason)
           = baseHtml md mt signal tradeOpen
               @ join ''<br/>'' (snd (shortContent md e mt source tradeOpen reason))
       \<and> (\<forall>f\<in>set (snd (shortContent md e mt source tradeOpen reason)).
             sublist f (contentHtml (getNotifierMessage md e mt source signal tradeOpen reason)))
       \<and> (\<forall>r. reason = Some r \<and> r \<noteq> [] \<longrightarrow>
             (if last r = CHR ''.'' then butlast r else r)
               \<in> set (snd (shortContent md e mt source tradeOpen reason)))"
proof (intro conjI ballI allI impI)
  show "contentHtml (getNotifierMessage md e mt source signal tradeOpen reason)
           = baseHtml md mt signal tradeOpen
               @ join ''<br/>'' (snd (shortContent md e mt source tradeOpen reason))"
    using short by (rule contentHtml_short)
next
  fix f
  assume "f \<in> set (snd (shortContent md e mt source tradeOpen reason))"
  then have "sublist f (join ''<br/>'' (snd (shortContent md e mt source tradeOpen reason)))"
    by (rule sublist_join)
  then have "sublist f (baseHtml md mt signal tradeOpen
               @ join ''<br/>'' (snd (shortContent md e mt source tradeOpen reason)) @ [])"
    by (rule sublist_mid)
  then show "sublist f (contentHtml (getNotifierMessage md e mt source signal tradeOpen reason))"
    by (simp add: contentHtml_short [OF short])
next
  fix r
  assume "reason = Some r \<and> r \<noteq> []"
  then show "(if last r = CHR ''.'' then butlast r else r)
               \<in> set (snd (shortContent md e mt source tradeOpen reason))"
    using reason_collected [of reason r] by blast
qed

text \<open>A bare notice with a reason: the reason is part of the html body.\<close>

theorem short_html_body_witness:
  "contentHtml (getNotifierMessage exampleModules (exampleEnv ''info'' True) ''Info'' None None
                  None (Some ''Because.''))
     = ''<b>Notification.</b>Because<br/>''
   \<and> sublist ''Because''
        (contentHtml (getNotifierMessage exampleModules (exampleEnv ''info'' True) ''Info'' None
                        None None (Some ''Because.'')))"
proof -
  have short: "IS_NOTIFIER_SHORT (exampleEnv ''info'' True)" by (simp add: exampleEnv_def)
  have c: "snd (shortContent exampleModules (exampleEnv ''info'' True) ''Info'' None None
                  (Some ''Because.'')) = [''Because'', []]"
    by code_simp
  have b: "baseHtml exampleModules ''Info'' None None = ''<b>Notification.</b>''"
    by code_simp
  note body = short_html_body [OF short, of exampleModules "''Info''" None None None
      "Some ''Because.''"]
  from body have html: "contentHtml (getNotifierMessage exampleModules (exampleEnv ''info'' True)
      ''Info'' None None None (Some ''Because.'')) = ''<b>Notification.</b>Because<br/>''"
    by (simp add: c b)
  from body have "\<forall>f\<in>set [''Because'', []]. sublist f (contentHtml (getNotifierMessage
      exampleModules (exampleEnv ''info'' True) ''Info'' None None None (Some ''Because.'')))"
    unfolding c by (rule conjunct1 [OF conjunct2])
  then have "sublist ''Because'' (contentHtml (getNotifierMessage exampleModules
      (exampleEnv ''info'' True) ''Info'' None None None (Some ''Because.'')))"
    by (rule bspec) simp
  with html show ?thesis by (rule conjI)
qed

text \<open>
  Claim C9 as stated keeps reason, profit, cost, duration and source out of the html body.
  For a successful trade with a reason and a source the html body is the coloured variant
  of the action followed by all five fragments.
\<close>

theorem short_html_minimal_counterexample:
  "contentHtml (getNotifierMessage exampleModules (exampleEnv ''info'' True) ''Success''
                  (Some ''User'') None (Some (exampleTrade ''long'' 45)) (Some ''Because.''))
     = ''<font color=#008000><b>Success</b></font> ETHUSDT long trade. ''
         @ ''Because<br/>10%<br/>200<br/>45 sec<br/>User<br/>''
   \<and> baseHtml exampleModules ''Success'' None (Some (exampleTrade ''long'' 45))
     = ''<font color=#008000><b>Success</b></font> ETHUSDT long trade. ''"
  by code_simp

end
